theory Spec2Isabelle
  imports Main "HOL-Library.Word" "HOL-Library.Signed_Division"
begin

section \<open>Collaborators of the middleware\<close>

subsection \<open>Go errors\<close>

text \<open>
  A Go \<open>error\<close> value. \<open>errors.New(msg)\<close> is \<open>ErrorString msg\<close>;
  \<open>fmt.Errorf("...%w", err)\<close> is a \<open>WrapError\<close> that keeps the formatted message and the
  wrapped error; \<open>NilDereference\<close> is the runtime error of a nil pointer or nil interface
  dereference. The nil error is \<open>None :: error option\<close>.
\<close>

datatype error = ErrorString string | WrapError string error | NilDereference

fun Error :: "error \<Rightarrow> string" where
  "Error (ErrorString s) = s"
| "Error (WrapError msg e) = msg"
| "Error NilDereference = ''runtime error: invalid memory address or nil pointer dereference''"

fun Unwrap :: "error \<Rightarrow> error option" where
  "Unwrap (WrapError msg e) = Some e"
| "Unwrap e = None"

definition errors_New :: "string \<Rightarrow> error" where
  "errors_New msg = ErrorString msg"

text \<open>\<open>fmt.Errorf(prefix + "%w", err)\<close>: the message is the prefix followed by \<open>err.Error()\<close>.\<close>

definition fmt_Errorf_w :: "string \<Rightarrow> error \<Rightarrow> error" where
  "fmt_Errorf_w prefix err = WrapError (prefix @ Error err) err"

subsection \<open>The limiter's result\<close>

type_synonym uint64 = "64 word"

text \<open>\<open>time.Duration\<close> is an \<open>int64\<close> count of nanoseconds.\<close>

type_synonym Duration = "64 word"

record SubmitResult =
  Accepted :: bool
  RetryInAvailable :: bool
  RetryIn :: Duration

text \<open>
  \<open>Duration.Milliseconds\<close> is \<open>int64(d) / 1e6\<close>, Go's division truncating towards zero
  (\<open>sdiv\<close> on \<open>int\<close>).
\<close>

definition Milliseconds :: "Duration \<Rightarrow> 64 word" where
  "Milliseconds d = word_of_int (sint d sdiv 1000000)"

text \<open>\<open>fmt.Sprintf("%v", n)\<close> for an \<open>int64\<close>: the decimal digits, with a minus sign.\<close>

definition digit :: "nat \<Rightarrow> char" where
  "digit d = ''0123456789'' ! d"

fun showNat :: "nat \<Rightarrow> string" where
  "showNat n =
     (if n < 10 then [digit n]
      else showNat (n div 10) @ [digit (n mod 10)])"

declare showNat.simps [simp del]

definition Sprintf_v :: "64 word \<Rightarrow> string" where
  "Sprintf_v w =
     (if sint w < 0 then CHR ''-'' # showNat (nat (- sint w)) else showNat (nat (sint w)))"

text \<open>
  \<open>strconv.Atoi\<close>, with which the repository's test reads the header back: an optional
  sign, then at least one decimal digit and nothing else, and a value that fits an
  \<open>int64\<close>; \<open>None\<close> is its error.
\<close>

definition digitVal :: "char \<Rightarrow> nat option" where
  "digitVal c =
     (let n = (of_char c :: nat) in if 48 \<le> n \<and> n \<le> 57 then Some (n - 48) else None)"

fun parseNat :: "nat \<Rightarrow> string \<Rightarrow> nat option" where
  "parseNat acc [] = Some acc"
| "parseNat acc (c # cs) =
     (case digitVal c of None \<Rightarrow> None | Some d \<Rightarrow> parseNat (acc * 10 + d) cs)"

definition Atoi :: "string \<Rightarrow> int option" where
  "Atoi s =
     (case s of
        [] \<Rightarrow> None
      | c # cs \<Rightarrow>
          (let body = (if c = CHR ''-'' \<or> c = CHR ''+'' then cs else s) in
           if body = [] then None
           else case parseNat 0 body of
                  None \<Rightarrow> None
                | Some n \<Rightarrow>
                    (let k = (if c = CHR ''-'' then - int n else int n) in
                     if - (2 ^ 63) \<le> k \<and> k < 2 ^ 63 then Some k else None)))"

subsection \<open>The request context\<close>

text \<open>
  What a request handler can reach through its \<open>*gin.Context\<close> and its captured variables:
  the response header map (\<open>http.Header\<close>, a map from names to value lists), the response
  status, whether the chain was aborted, and \<open>env\<close> for everything else (the request,
  the limiter's internal state, whatever the user's callbacks close over).
\<close>

record 'e Context =
  respHeader :: "string \<rightharpoonup> string list"
  respStatus :: int
  aborted :: bool
  env :: 'e

text \<open>
  The calls the middleware makes to its collaborators, in order, and the entry into each of
  its three outcome methods (\<open>handleAccept\<close>, \<open>handleRejection\<close>, \<open>handleError\<close>).
\<close>

datatype handling = AcceptHandling | RejectHandling | ErrorHandling

datatype event =
    Enter handling
  | CallNext
  | CallHeader string string
  | CallAbortWithStatus int
  | CallTenantKeyFunc
  | CallSubmit string uint64
  | CallAcceptHandler SubmitResult
  | CallAbortHandler SubmitResult
  | CallErrorHandler error

text \<open>
  The state of one request being handled: the trace of events so far (which no callback
  can touch) and the context (which every callback receives and may change).
\<close>

record 'e st =
  trace :: "event list"
  gc :: "'e Context"

definition log :: "event \<Rightarrow> 'e st \<Rightarrow> 'e st" where
  "log ev s = s\<lparr>trace := trace s @ [ev]\<rparr>"

text \<open>
  \<open>c.Next()\<close> hands the request to the rest of the chain; what the later handlers do is
  outside this development, so only the call is recorded.
\<close>

definition c_Next :: "'e st \<Rightarrow> 'e st" where
  "c_Next s = log CallNext s"

text \<open>
  \<open>c.Header(key, value)\<close>: gin deletes the header when the value is empty and sets it to the
  one value otherwise. (\<open>Set\<close> canonicalises the key; \<open>X-Retry-In\<close> is canonical already.)
\<close>

definition c_Header :: "string \<Rightarrow> string \<Rightarrow> 'e st \<Rightarrow> 'e st" where
  "c_Header key v s =
     (let s1 = log (CallHeader key v) s; c = gc s1 in
      if v = [] then s1\<lparr>gc := c\<lparr>respHeader := (respHeader c)(key := None)\<rparr>\<rparr>
      else s1\<lparr>gc := c\<lparr>respHeader := (respHeader c)(key \<mapsto> [v])\<rparr>\<rparr>)"

text \<open>\<open>c.AbortWithStatus(code)\<close>: sets the status and aborts the chain.\<close>

definition c_AbortWithStatus :: "int \<Rightarrow> 'e st \<Rightarrow> 'e st" where
  "c_AbortWithStatus code s =
     (let s1 = log (CallAbortWithStatus code) s; c = gc s1 in
      s1\<lparr>gc := c\<lparr>respStatus := code, aborted := True\<rparr>\<rparr>)"

text \<open>
  The function types of the configuration. Each callback receives the context and returns
  it, possibly changed; as its Go signature says, it returns (a callback that panics or
  never returns is outside this development). \<open>LoadLimiter\<close> is the \<open>goll.LoadLimiter\<close> interface reduced to the
  one method the middleware calls, \<open>Submit(tenantKey, load)\<close>; a Go pair of a value and an
  error is a pair of the value and an \<open>error option\<close>.
\<close>

type_synonym 'e tenant_key_func = "'e Context \<Rightarrow> (string \<times> error option) \<times> 'e Context"
type_synonym 'e result_handler = "'e Context \<Rightarrow> SubmitResult \<Rightarrow> 'e Context"
type_synonym 'e error_handler = "'e Context \<Rightarrow> error \<Rightarrow> 'e Context"
type_synonym 'e LoadLimiter =
  "string \<Rightarrow> uint64 \<Rightarrow> 'e Context \<Rightarrow> (SubmitResult \<times> error option) \<times> 'e Context"

section \<open>The middleware\<close>

record 'e Config =
  Limiter :: "'e LoadLimiter option"
  DefaultRouteLoad :: uint64
  TenantKey :: string
  TenantKeyFunc :: "'e tenant_key_func option"
  AcceptHandler :: "'e result_handler option"
  AbortHandler :: "'e result_handler option"
  ErrorHandler :: "'e error_handler option"

record 'e loadLimiterMiddleware =
  limiter :: "'e LoadLimiter option"
  load :: uint64
  tenantKey :: string
  tenantKeyFunc :: "'e tenant_key_func option"
  acceptHandler :: "'e result_handler option"
  abortHandler :: "'e result_handler option"
  errorHandler :: "'e error_handler option"

subsection \<open>Instances live in a store\<close>

text \<open>
  The methods have pointer receivers, so instances are cells of a store: a list indexed by
  address, where \<open>&loadLimiterMiddleware{...}\<close> appends a cell. A pointer is an address or
  nil (\<open>None\<close>). Go has no dangling pointers; an address outside the store reads as nil.
\<close>

type_synonym 'e heap = "'e loadLimiterMiddleware list"
type_synonym ptr = "nat option"

definition deref :: "'e heap \<Rightarrow> ptr \<Rightarrow> 'e loadLimiterMiddleware option" where
  "deref h p =
     (case p of None \<Rightarrow> None
      | Some a \<Rightarrow> if a < length h then Some (h ! a) else None)"

definition new :: "'e loadLimiterMiddleware \<Rightarrow> 'e heap \<Rightarrow> ptr \<times> 'e heap" where
  "new v h = (Some (length h), h @ [v])"

text \<open>The assignment \<open>p.load = n\<close>; on a nil pointer it panics.\<close>

definition assign_load :: "ptr \<Rightarrow> uint64 \<Rightarrow> 'e heap \<Rightarrow> error + 'e heap" where
  "assign_load p n h =
     (case p of None \<Rightarrow> Inl NilDereference
      | Some a \<Rightarrow>
          if a < length h then Inr (h[a := (h ! a)\<lparr>load := n\<rparr>]) else Inl NilDereference)"

definition NewLimiterMiddleware :: "'e Config \<Rightarrow> 'e heap \<Rightarrow> ptr \<times> 'e heap" where
  "NewLimiterMiddleware config h =
     new \<lparr>limiter = Limiter config,
          load = DefaultRouteLoad config,
          tenantKey = TenantKey config,
          tenantKeyFunc = TenantKeyFunc config,
          acceptHandler = AcceptHandler config,
          abortHandler = AbortHandler config,
          errorHandler = ErrorHandler config\<rparr> h"

text \<open>\<open>clone\<close> reads its receiver, so a nil receiver panics.\<close>

definition clone :: "ptr \<Rightarrow> 'e heap \<Rightarrow> (error + ptr) \<times> 'e heap" where
  "clone p h =
     (case deref h p of
        None \<Rightarrow> (Inl NilDereference, h)
      | Some instance \<Rightarrow>
          (let (q, h') =
                 new \<lparr>limiter = limiter instance,
                      load = load instance,
                      tenantKey = tenantKey instance,
                      tenantKeyFunc = tenantKeyFunc instance,
                      acceptHandler = acceptHandler instance,
                      abortHandler = abortHandler instance,
                      errorHandler = errorHandler instance\<rparr> h
           in (Inr q, h')))"

subsection \<open>The three outcomes\<close>

text \<open>A handler returns, or panics with an error; the state it reached is kept either way.\<close>

datatype 'e outcome = Returns "'e st" | Panics error "'e st"

definition handleError :: "'e loadLimiterMiddleware \<Rightarrow> error \<Rightarrow> 'e st \<Rightarrow> 'e outcome" where
  "handleError instance err s =
     (let s1 = log (Enter ErrorHandling) s in
      case errorHandler instance of
        Some h \<Rightarrow> Returns ((log (CallErrorHandler err) s1)\<lparr>gc := h (gc s1) err\<rparr>)
      | None \<Rightarrow> Panics (fmt_Errorf_w ''error submitting load request: '' err) s1)"

definition handleRejection :: "'e loadLimiterMiddleware \<Rightarrow> SubmitResult \<Rightarrow> 'e st \<Rightarrow> 'e st" where
  "handleRejection instance res s =
     (let s1 = log (Enter RejectHandling) s in
      case abortHandler instance of
        Some h \<Rightarrow> (log (CallAbortHandler res) s1)\<lparr>gc := h (gc s1) res\<rparr>
      | None \<Rightarrow>
          (let s2 = (if RetryInAvailable res
                     then c_Header ''X-Retry-In'' (Sprintf_v (Milliseconds (RetryIn res))) s1
                     else s1)
           in c_AbortWithStatus 429 s2))"

definition handleAccept :: "'e loadLimiterMiddleware \<Rightarrow> SubmitResult \<Rightarrow> 'e st \<Rightarrow> 'e st" where
  "handleAccept instance res s =
     (let s1 = log (Enter AcceptHandling) s in
      case acceptHandler instance of
        Some h \<Rightarrow> (log (CallAcceptHandler res) s1)\<lparr>gc := h (gc s1) res\<rparr>
      | None \<Rightarrow> c_Next s1)"

subsection \<open>Tenant key resolution and the limiter call\<close>

definition effectiveTenantKey ::
  "'e loadLimiterMiddleware \<Rightarrow> 'e st \<Rightarrow> (string \<times> error option) \<times> 'e st" where
  "effectiveTenantKey instance s =
     (case tenantKeyFunc instance of
        Some f \<Rightarrow>
          (let (r, c') = f (gc s) in (r, (log CallTenantKeyFunc s)\<lparr>gc := c'\<rparr>))
      | None \<Rightarrow> ((tenantKey instance, None), s))"

text \<open>The call \<open>l.Submit(tenantKey, load)\<close> on a limiter that is not nil.\<close>

definition Submit ::
  "'e LoadLimiter \<Rightarrow> string \<Rightarrow> uint64 \<Rightarrow> 'e st \<Rightarrow> (SubmitResult \<times> error option) \<times> 'e st" where
  "Submit l key n s =
     (let (r, c') = l key n (gc s) in (r, (log (CallSubmit key n) s)\<lparr>gc := c'\<rparr>))"

subsection \<open>The request handler\<close>

text \<open>
  The body of the closure that \<open>routeLoadLimiter\<close> returns, for the instance its captured
  pointer refers to. \<open>load\<close> is unsigned, and the test is the source's \<open>load <= 0\<close>. Calling
  \<open>Submit\<close> on a nil limiter is a nil dereference.
\<close>

definition handleRequest :: "'e loadLimiterMiddleware \<Rightarrow> 'e st \<Rightarrow> 'e outcome" where
  "handleRequest instance s =
     (if load instance \<le> 0 then Returns (c_Next s)
      else
        (let ((tenantKey, err), s1) = effectiveTenantKey instance s in
         case err of
           Some e \<Rightarrow> handleError instance e s1
         | None \<Rightarrow>
             (case limiter instance of
                None \<Rightarrow> Panics NilDereference s1
              | Some l \<Rightarrow>
                  (let ((res, err2), s2) = Submit l tenantKey (load instance) s1 in
                   case err2 of
                     Some e \<Rightarrow> handleError instance e s2
                   | None \<Rightarrow>
                       if \<not> Accepted res then Returns (handleRejection instance res s2)
                       else Returns (handleAccept instance res s2)))))"

text \<open>
  A \<open>gin.HandlerFunc\<close> made by this package: the closure reads its instance through the
  captured pointer each time a request arrives, so it takes the store of that moment.
\<close>

type_synonym 'e HandlerFunc = "'e heap \<Rightarrow> 'e st \<Rightarrow> 'e outcome"

definition closure :: "ptr \<Rightarrow> 'e HandlerFunc" where
  "closure p h s =
     (case deref h p of
        None \<Rightarrow> Panics NilDereference s
      | Some instance \<Rightarrow> handleRequest instance s)"

subsection \<open>Installation\<close>

definition validateConfig :: "'e heap \<Rightarrow> ptr \<Rightarrow> error option" where
  "validateConfig h p =
     (case deref h p of
        None \<Rightarrow> Some (errors_New ''nil config'')
      | Some config \<Rightarrow>
          if limiter config = None then Some (errors_New ''limiter is required'')
          else if tenantKey config = [] \<and> tenantKeyFunc config = None
            then Some (errors_New ''one of TenantKey or TenantKeyFunc is required'')
          else if tenantKey config \<noteq> [] \<and> tenantKeyFunc config \<noteq> None
            then Some (errors_New ''only one of TenantKey or TenantKeyFunc is required'')
          else None)"

text \<open>\<open>Inl err\<close> is the panic \<open>panic(err)\<close>; \<open>Inr\<close> carries the handler returned.\<close>

definition routeLoadLimiter :: "ptr \<Rightarrow> 'e heap \<Rightarrow> error + 'e HandlerFunc" where
  "routeLoadLimiter p h =
     (case validateConfig h p of
        Some err \<Rightarrow> Inl err
      | None \<Rightarrow> Inr (closure p))"

definition Default :: "ptr \<Rightarrow> 'e heap \<Rightarrow> error + 'e HandlerFunc" where
  "Default p h = routeLoadLimiter p h"

text \<open>
  \<open>WithLoad\<close> returns the store as it leaves it, also when it panics: the clone was
  allocated before validation ran.
\<close>

definition WithLoad :: "ptr \<Rightarrow> uint64 \<Rightarrow> 'e heap \<Rightarrow> (error + 'e HandlerFunc) \<times> 'e heap" where
  "WithLoad p n h =
     (case clone p h of
        (Inl e, h1) \<Rightarrow> (Inl e, h1)
      | (Inr cloned, h1) \<Rightarrow>
          (case assign_load cloned n h1 of
             Inl e \<Rightarrow> (Inl e, h1)
           | Inr h2 \<Rightarrow> (Default cloned h2, h2)))"

section \<open>Observing a run\<close>

text \<open>
  What the theorems read off a run: the state an outcome ends in, the events added since a
  state, and the outcome methods entered among some events, in order.
\<close>

fun final :: "'e outcome \<Rightarrow> 'e st" where
  "final (Returns s) = s"
| "final (Panics e s) = s"

definition events_since :: "'e st \<Rightarrow> 'e st \<Rightarrow> event list" where
  "events_since s s' = drop (length (trace s)) (trace s')"

primrec fired :: "event list \<Rightarrow> handling list" where
  "fired [] = []"
| "fired (ev # evs) = (case ev of Enter k \<Rightarrow> k # fired evs | _ \<Rightarrow> fired evs)"

section \<open>Concrete collaborators\<close>

text \<open>
  A limiter with one window of capacity 100, whose load so far is the \<open>env\<close> of the
  context; a limiter that is full and cannot say when to retry; a limiter whose
  synchronization fails; tenant key functions; an error handler
  that answers 500, as the one of the repository's test does; and the instance these
  configure.
\<close>

definition ctx0 :: "nat Context" where
  "ctx0 = \<lparr>respHeader = Map.empty, respStatus = 200, aborted = False, env = 0\<rparr>"

definition s0 :: "nat st" where
  "s0 = \<lparr>trace = [], gc = ctx0\<rparr>"

definition accepted :: SubmitResult where
  "accepted = \<lparr>Accepted = True, RetryInAvailable = False, RetryIn = 0\<rparr>"

definition rejected :: SubmitResult where
  "rejected = \<lparr>Accepted = False, RetryInAvailable = True, RetryIn = 1500000000\<rparr>"

definition stubLimiter :: "nat LoadLimiter" where
  "stubLimiter key n c =
     (if env c + unat n \<le> 100 then ((accepted, None), c\<lparr>env := env c + unat n\<rparr>)
      else ((rejected, None), c))"

definition rejectedNoRetry :: SubmitResult where
  "rejectedNoRetry = \<lparr>Accepted = False, RetryInAvailable = False, RetryIn = 0\<rparr>"

definition fullLimiter :: "nat LoadLimiter" where
  "fullLimiter key n c = ((rejectedNoRetry, None), c)"

definition brokenLimiter :: "nat LoadLimiter" where
  "brokenLimiter key n c = ((rejected, Some (ErrorString ''synchronization failed'')), c)"

definition emptyKeyFunc :: "nat tenant_key_func" where
  "emptyKeyFunc c = (([], None), c)"

definition failingKeyFunc :: "nat tenant_key_func" where
  "failingKeyFunc c = (([], Some (ErrorString ''no tenant'')), c)"

definition testErrorHandler :: "nat error_handler" where
  "testErrorHandler c err = c\<lparr>respStatus := 500, aborted := True\<rparr>"

definition testConfig :: "nat Config" where
  "testConfig =
     \<lparr>Limiter = Some stubLimiter, DefaultRouteLoad = 1, TenantKey = ''A'',
      TenantKeyFunc = None, AcceptHandler = None, AbortHandler = None, ErrorHandler = None\<rparr>"

definition testInstance :: "nat loadLimiterMiddleware" where
  "testInstance =
     \<lparr>limiter = Some stubLimiter, load = 1, tenantKey = ''A'', tenantKeyFunc = None,
      acceptHandler = None, abortHandler = None, errorHandler = None\<rparr>"

lemmas fixture_defs = ctx0_def s0_def accepted_def rejected_def stubLimiter_def
  rejectedNoRetry_def fullLimiter_def
  brokenLimiter_def emptyKeyFunc_def failingKeyFunc_def testErrorHandler_def testConfig_def
  testInstance_def

lemmas model_defs = handleRequest_def effectiveTenantKey_def Submit_def handleAccept_def
  handleRejection_def handleError_def c_Next_def c_Header_def c_AbortWithStatus_def log_def
  closure_def deref_def validateConfig_def routeLoadLimiter_def Default_def WithLoad_def
  clone_def new_def assign_load_def NewLimiterMiddleware_def errors_New_def fmt_Errorf_w_def
  events_since_def

section \<open>Basic facts\<close>

subsection \<open>Formatting the retry delay\<close>

lemma showNat_nonempty: "showNat n \<noteq> []"
  by (subst showNat.simps) simp

lemma Sprintf_v_nonempty: "Sprintf_v w \<noteq> []"
  by (simp add: Sprintf_v_def showNat_nonempty)

lemma div_million_le: "0 \<le> (k::int) \<Longrightarrow> k div 1000000 \<le> k"
  using zdiv_mono2 [of k 1 1000000] by simp

lemma sdiv_million_bounds:
  assumes "- (2 ^ 63) \<le> (k::int)" "k < 2 ^ 63"
  shows "- (2 ^ 63) \<le> k sdiv 1000000 \<and> k sdiv 1000000 < 2 ^ 63"
proof (cases "k < 0")
  case True
  then have eq: "k sdiv 1000000 = - ((- k) div 1000000)"
    by (simp add: signed_divide_int_def)
  have "(- k) div 1000000 \<le> - k" using True by (intro div_million_le) simp
  moreover have "0 \<le> (- k) div 1000000" using True by (simp add: pos_imp_zdiv_nonneg_iff)
  ultimately show ?thesis using assms eq by linarith
next
  case False
  then have eq: "k sdiv 1000000 = k div 1000000"
    by (simp add: signed_divide_int_def sgn_if)
  have "k div 1000000 \<le> k" using False by (intro div_million_le) simp
  moreover have "0 \<le> k div 1000000" using False by (simp add: pos_imp_zdiv_nonneg_iff)
  ultimately show ?thesis using assms eq by linarith
qed

text \<open>The quotient fits an \<open>int64\<close>, so \<open>Milliseconds\<close> never wraps.\<close>

lemma sint_Milliseconds: "sint (Milliseconds d) = sint d sdiv 1000000"
proof -
  have b: "- (2 ^ 63) \<le> sint d" "sint d < 2 ^ 63"
    using sint_ge [of d] sint_lt [of d] by simp_all
  from sdiv_million_bounds [OF b] show ?thesis
    unfolding Milliseconds_def
    by (simp add: sint_sbintrunc' signed_take_bit_int_eq_self)
qed

text \<open>Reading the rendered number back gives the number: the rendering is its decimal.\<close>

lemma digitVal_digit:
  assumes "d < 10"
  shows "digitVal (digit d) = Some d"
proof -
  from assms
  have "d = 0 \<or> d = 1 \<or> d = 2 \<or> d = 3 \<or> d = 4 \<or> d = 5 \<or> d = 6 \<or> d = 7 \<or> d = 8 \<or> d = 9"
    by arith
  then show ?thesis
    by (elim disjE) (simp_all add: digitVal_def digit_def)
qed

lemma digitVal_sign: "digitVal CHR ''-'' = None" "digitVal CHR ''+'' = None"
  by (simp_all add: digitVal_def)

lemma parseNat_snoc:
  "parseNat acc (xs @ [c]) =
     (case parseNat acc xs of
        None \<Rightarrow> None
      | Some m \<Rightarrow> (case digitVal c of None \<Rightarrow> None | Some d \<Rightarrow> Some (m * 10 + d)))"
  by (induction xs arbitrary: acc) (auto split: option.splits)

lemma parseNat_showNat: "parseNat 0 (showNat n) = Some n"
proof (induction n rule: showNat.induct)
  case (1 n)
  show ?case
  proof (cases "n < 10")
    case True
    then show ?thesis
      by (subst showNat.simps) (simp add: digitVal_digit)
  next
    case False
    with 1 have "parseNat 0 (showNat (n div 10)) = Some (n div 10)" by simp
    with False show ?thesis
      by (subst showNat.simps) (simp add: parseNat_snoc digitVal_digit)
  qed
qed

lemma showNat_digits: "c \<in> set (showNat n) \<Longrightarrow> digitVal c \<noteq> None"
proof (induction n rule: showNat.induct)
  case (1 n)
  from "1.prems" have "c \<in> set (if n < 10 then [digit n]
      else showNat (n div 10) @ [digit (n mod 10)])"
    by (subst (asm) showNat.simps) simp
  then show ?case
    using "1.IH" by (auto simp: digitVal_digit split: if_splits)
qed

lemma Atoi_showNat:
  assumes "int n < 2 ^ 63"
  shows "Atoi (showNat n) = Some (int n)"
proof -
  obtain c cs where s: "showNat n = c # cs"
    using showNat_nonempty [of n] by (cases "showNat n") auto
  then have "digitVal c \<noteq> None" using showNat_digits [of c n] by simp
  then have "c \<noteq> CHR ''-''" "c \<noteq> CHR ''+''" using digitVal_sign by auto
  moreover have "parseNat 0 (c # cs) = Some n" using parseNat_showNat [of n] s by simp
  ultimately show ?thesis using assms s by (simp add: Atoi_def)
qed

lemma Atoi_Sprintf_v: "Atoi (Sprintf_v w) = Some (sint w)"
proof (cases "sint w < 0")
  case True
  have lo: "- (2 ^ 63) \<le> sint w" using sint_ge [of w] by simp
  have "parseNat 0 (showNat (nat (- sint w))) = Some (nat (- sint w))"
    by (rule parseNat_showNat)
  with True lo show ?thesis
    by (simp add: Sprintf_v_def Atoi_def showNat_nonempty)
next
  case False
  have "sint w < 2 ^ 63" using sint_lt [of w] by simp
  with False have "Atoi (showNat (nat (sint w))) = Some (int (nat (sint w)))"
    by (intro Atoi_showNat) simp
  with False show ?thesis by (simp add: Sprintf_v_def)
qed

lemma Atoi_retry_header:
  "Atoi (Sprintf_v (Milliseconds d)) = Some (sint d sdiv 1000000)"
  by (simp add: Atoi_Sprintf_v sint_Milliseconds)

subsection \<open>Traces\<close>

lemma fired_append: "fired (xs @ ys) = fired xs @ fired ys"
  by (induction xs) (auto split: event.splits)

lemma trace_handleError:
  "trace (final (handleError inst e s)) =
     trace s @ Enter ErrorHandling #
       (case errorHandler inst of Some h \<Rightarrow> [CallErrorHandler e] | None \<Rightarrow> [])"
  by (simp add: handleError_def log_def split: option.splits)

lemma trace_handleRejection:
  "trace (handleRejection inst res s) =
     trace s @ Enter RejectHandling #
       (case abortHandler inst of
          Some h \<Rightarrow> [CallAbortHandler res]
        | None \<Rightarrow>
            (if RetryInAvailable res
             then [CallHeader ''X-Retry-In'' (Sprintf_v (Milliseconds (RetryIn res)))]
             else []) @ [CallAbortWithStatus 429])"
  by (simp add: handleRejection_def c_Header_def c_AbortWithStatus_def log_def Let_def
      split: option.splits)

lemma trace_handleAccept:
  "trace (handleAccept inst res s) =
     trace s @ Enter AcceptHandling #
       (case acceptHandler inst of Some h \<Rightarrow> [CallAcceptHandler res] | None \<Rightarrow> [CallNext])"
  by (simp add: handleAccept_def c_Next_def log_def split: option.splits)

lemma trace_effectiveTenantKey:
  "trace (snd (effectiveTenantKey inst s)) =
     trace s @ (case tenantKeyFunc inst of Some f \<Rightarrow> [CallTenantKeyFunc] | None \<Rightarrow> [])"
  by (simp add: effectiveTenantKey_def log_def split: option.splits prod.splits)

lemma trace_Submit: "trace (snd (Submit l k n s)) = trace s @ [CallSubmit k n]"
  by (simp add: Submit_def log_def split: prod.splits)

subsection \<open>The routes of a request\<close>

lemma effectiveTenantKey_func:
  assumes "tenantKeyFunc inst = Some f" and "f (gc s) = (r, c')"
  shows "effectiveTenantKey inst s = (r, s\<lparr>trace := trace s @ [CallTenantKeyFunc], gc := c'\<rparr>)"
  using assms by (simp add: effectiveTenantKey_def log_def)

lemma handleRequest_resolution_error:
  assumes "load inst \<noteq> 0" and "effectiveTenantKey inst s = ((k, Some e), s1)"
  shows "handleRequest inst s = handleError inst e s1"
  using assms by (simp add: handleRequest_def)

lemma handleRequest_submission_error:
  assumes "load inst \<noteq> 0" and "effectiveTenantKey inst s = ((k, None), s1)"
    and "limiter inst = Some l" and "Submit l k (load inst) s1 = ((res, Some e), s2)"
  shows "handleRequest inst s = handleError inst e s2"
  using assms by (simp add: handleRequest_def)

lemma handleRequest_submitted:
  assumes "load inst \<noteq> 0" and "effectiveTenantKey inst s = ((k, None), s1)"
    and "limiter inst = Some l" and "Submit l k (load inst) s1 = ((res, None), s2)"
  shows "handleRequest inst s =
           Returns (if Accepted res then handleAccept inst res s2
                    else handleRejection inst res s2)"
  using assms by (simp add: handleRequest_def)

lemma handleError_eq:
  "handleError inst e s =
     (case errorHandler inst of
        Some h \<Rightarrow> Returns (s\<lparr>trace := trace s @ [Enter ErrorHandling, CallErrorHandler e],
                              gc := h (gc s) e\<rparr>)
      | None \<Rightarrow> Panics (WrapError (''error submitting load request: '' @ Error e) e)
                 (s\<lparr>trace := trace s @ [Enter ErrorHandling]\<rparr>))"
  by (simp add: handleError_def log_def fmt_Errorf_w_def split: option.splits)

text \<open>
  Every request with a positive load and a limiter runs some prefix that enters no outcome
  method, and then is exactly one call of an outcome method.
\<close>

lemma handleRequest_route:
  assumes "load inst \<noteq> 0" and "limiter inst = Some l"
  shows "\<exists>s'. take (length (trace s)) (trace s') = trace s
           \<and> fired (drop (length (trace s)) (trace s')) = []
           \<and> ((\<exists>e. handleRequest inst s = handleError inst e s')
              \<or> (\<exists>res. handleRequest inst s = Returns (handleRejection inst res s'))
              \<or> (\<exists>res. handleRequest inst s = Returns (handleAccept inst res s')))"
proof -
  obtain k err s1 where tk: "effectiveTenantKey inst s = ((k, err), s1)"
    by (metis surj_pair)
  have t1: "trace s1 =
      trace s @ (case tenantKeyFunc inst of Some f \<Rightarrow> [CallTenantKeyFunc] | None \<Rightarrow> [])"
    using trace_effectiveTenantKey [of inst s] tk by simp
  show ?thesis
  proof (cases err)
    case (Some e)
    then have "handleRequest inst s = handleError inst e s1"
      using assms(1) tk by (simp add: handleRequest_resolution_error)
    moreover have "take (length (trace s)) (trace s1) = trace s"
      "fired (drop (length (trace s)) (trace s1)) = []"
      using t1 by (simp_all split: option.splits)
    ultimately show ?thesis by blast
  next
    case None
    obtain res err2 s2 where sb: "Submit l k (load inst) s1 = ((res, err2), s2)"
      by (metis surj_pair)
    have t2: "trace s2 = trace s1 @ [CallSubmit k (load inst)]"
      using trace_Submit [of l k "load inst" s1] sb by simp
    have pre: "take (length (trace s)) (trace s2) = trace s"
      "fired (drop (length (trace s)) (trace s2)) = []"
      using t1 t2 by (simp_all split: option.splits)
    show ?thesis
    proof (cases err2)
      case (Some e)
      then have "handleRequest inst s = handleError inst e s2"
        using assms tk None sb by (simp add: handleRequest_def)
      with pre show ?thesis by blast
    next
      case n2: None
      show ?thesis
      proof (cases "Accepted res")
        case True
        then have "handleRequest inst s = Returns (handleAccept inst res s2)"
          using assms tk None sb n2 by (simp add: handleRequest_def)
        with pre show ?thesis by blast
      next
        case False
        then have "handleRequest inst s = Returns (handleRejection inst res s2)"
          using assms tk None sb n2 by (simp add: handleRequest_def)
        with pre show ?thesis by blast
      qed
    qed
  qed
qed

lemma handleRequest_Panics:
  assumes "limiter inst \<noteq> None" and "handleRequest inst s = Panics e s'"
  shows "\<exists>e0. e = fmt_Errorf_w ''error submitting load request: '' e0"
  using assms
  by (auto simp: handleRequest_def handleError_def Let_def
      split: if_splits prod.splits option.splits)

subsection \<open>The store and installation\<close>

lemma deref_append: "deref h p = Some inst \<Longrightarrow> deref (h @ xs) p = Some inst"
  by (auto simp: deref_def nth_append split: option.splits if_splits)

lemma deref_new: "deref (h @ [v]) (Some (length h)) = Some v"
  by (simp add: deref_def)

lemma NewLimiterMiddleware_eq:
  "NewLimiterMiddleware cfg h0 = (p, h1) \<longleftrightarrow>
     p = Some (length h0) \<and>
     h1 = h0 @ [\<lparr>limiter = Limiter cfg, load = DefaultRouteLoad cfg, tenantKey = TenantKey cfg,
                  tenantKeyFunc = TenantKeyFunc cfg, acceptHandler = AcceptHandler cfg,
                  abortHandler = AbortHandler cfg, errorHandler = ErrorHandler cfg\<rparr>]"
  by (auto simp: NewLimiterMiddleware_def new_def)

lemma Default_Inr_iff:
  "Default p h = Inr hf \<longleftrightarrow> validateConfig h p = None \<and> hf = closure p"
  by (auto simp: Default_def routeLoadLimiter_def split: option.splits)

lemma Default_Inl_iff: "Default p h = Inl err \<longleftrightarrow> validateConfig h p = Some err"
  by (auto simp: Default_def routeLoadLimiter_def split: option.splits)

lemma validateConfig_None_iff:
  "validateConfig h p = None \<longleftrightarrow>
     (\<exists>inst. deref h p = Some inst \<and> limiter inst \<noteq> None
        \<and> (tenantKey inst = [] \<longleftrightarrow> tenantKeyFunc inst \<noteq> None))"
  by (auto simp: validateConfig_def split: option.splits)

text \<open>On an instance that exists, \<open>WithLoad\<close> appends the clone with its new load.\<close>

lemma WithLoad_eq:
  assumes "deref h p = Some inst"
  shows "WithLoad p n h =
           (Default (Some (length h)) (h @ [inst\<lparr>load := n\<rparr>]), h @ [inst\<lparr>load := n\<rparr>])"
  using assms
  by (cases inst) (simp add: WithLoad_def clone_def new_def assign_load_def)

lemma WithLoad_nil: "deref h p = None \<Longrightarrow> WithLoad p n h = (Inl NilDereference, h)"
  by (simp add: WithLoad_def clone_def)

lemma closure_Panics:
  assumes "deref h p = Some inst" and "limiter inst \<noteq> None"
    and "closure p h s = Panics e s'"
  shows "\<exists>e0. e = fmt_Errorf_w ''error submitting load request: '' e0"
  using assms handleRequest_Panics [of inst s e s'] by (simp add: closure_def)

section \<open>The claims\<close>

subsection \<open>C1: dispatch on the limiter's answer\<close>

text \<open>
  Claim C1. When a request reaches \<open>Submit\<close> (positive load, tenant key resolved, limiter
  present) and \<open>Submit\<close> returns a nil error, the handler dispatches on \<open>Accepted\<close>: the
  whole run is \<open>handleAccept\<close> if it is true and \<open>handleRejection\<close> if it is false. On the
  accept path a configured accept handler is called with the context and the result and
  nothing else happens (no \<open>Next\<close>); with none configured the only action is \<open>c.Next()\<close>.
\<close>

theorem dispatch_on_accepted:
  assumes "load inst \<noteq> 0"
    and "effectiveTenantKey inst s = ((k, None), s1)"
    and "limiter inst = Some l"
    and "Submit l k (load inst) s1 = ((res, None), s2)"
  shows "handleRequest inst s =
           Returns (if Accepted res then handleAccept inst res s2
                    else handleRejection inst res s2)
       \<and> handleAccept inst res s2 =
           (case acceptHandler inst of
              Some h \<Rightarrow> s2\<lparr>trace := trace s2 @ [Enter AcceptHandling, CallAcceptHandler res],
                           gc := h (gc s2) res\<rparr>
            | None \<Rightarrow> s2\<lparr>trace := trace s2 @ [Enter AcceptHandling, CallNext]\<rparr>)
       \<and> fired (events_since s2 (handleAccept inst res s2)) = [AcceptHandling]
       \<and> fired (events_since s2 (handleRejection inst res s2)) = [RejectHandling]"
proof -
  have "handleAccept inst res s2 =
           (case acceptHandler inst of
              Some h \<Rightarrow> s2\<lparr>trace := trace s2 @ [Enter AcceptHandling, CallAcceptHandler res],
                           gc := h (gc s2) res\<rparr>
            | None \<Rightarrow> s2\<lparr>trace := trace s2 @ [Enter AcceptHandling, CallNext]\<rparr>)"
    by (simp add: handleAccept_def c_Next_def log_def split: option.splits)
  moreover have "fired (events_since s2 (handleAccept inst res s2)) = [AcceptHandling]"
    by (simp add: events_since_def trace_handleAccept split: option.splits)
  moreover have "fired (events_since s2 (handleRejection inst res s2)) = [RejectHandling]"
    by (simp add: events_since_def trace_handleRejection fired_append split: option.splits)
  ultimately show ?thesis
    using handleRequest_submitted [OF assms] by simp
qed

theorem dispatch_on_accepted_witness:
  "load (testInstance\<lparr>load := 10\<rparr>) \<noteq> 0
   \<and> effectiveTenantKey (testInstance\<lparr>load := 10\<rparr>) s0 = ((''A'', None), s0)
   \<and> limiter (testInstance\<lparr>load := 10\<rparr>) = Some stubLimiter
   \<and> Submit stubLimiter ''A'' 10 s0 =
        ((accepted, None), \<lparr>trace = [CallSubmit ''A'' 10], gc = ctx0\<lparr>env := 10\<rparr>\<rparr>)
   \<and> handleRequest (testInstance\<lparr>load := 10\<rparr>) s0 =
        Returns \<lparr>trace = [CallSubmit ''A'' 10, Enter AcceptHandling, CallNext],
                 gc = ctx0\<lparr>env := 10\<rparr>\<rparr>"
  using dispatch_on_accepted [of "testInstance\<lparr>load := 10\<rparr>" s0 "''A''" s0 stubLimiter
      accepted "\<lparr>trace = [CallSubmit ''A'' 10], gc = ctx0\<lparr>env := 10\<rparr>\<rparr>"]
  by (simp add: fixture_defs effectiveTenantKey_def Submit_def handleAccept_def log_def)

subsection \<open>C2: exactly one outcome\<close>

text \<open>
  Claim C2. For a handler that was installed and whose instance has a positive load, every
  request enters exactly one of the three outcome methods, exactly once: the outcome
  methods entered since the request began form a one-element list. The run is some prefix
  that enters none of them followed by one call of an outcome method, whose result is the
  result of the request: after the error or the rejection handling (or the accept
  handling) the handler does nothing more.
\<close>

theorem exactly_one_outcome:
  assumes "Default p h = Inr hf" and "deref h p = Some inst" and "load inst \<noteq> 0"
  shows "take (length (trace s)) (trace (final (hf h s))) = trace s
       \<and> (\<exists>k. fired (events_since s (final (hf h s))) = [k])
       \<and> (\<exists>s'. take (length (trace s)) (trace s') = trace s
              \<and> fired (events_since s s') = []
              \<and> ((\<exists>e. hf h s = handleError inst e s')
                 \<or> (\<exists>res. hf h s = Returns (handleRejection inst res s'))
                 \<or> (\<exists>res. hf h s = Returns (handleAccept inst res s'))))"
proof -
  from assms(1) have v: "validateConfig h p = None" and hf: "hf = closure p"
    by (simp_all add: Default_Inr_iff)
  from v assms(2) obtain l where l: "limiter inst = Some l"
    by (auto simp: validateConfig_None_iff)
  have run: "hf h s = handleRequest inst s"
    using hf assms(2) by (simp add: closure_def)
  from handleRequest_route [OF assms(3) l, of s]
  obtain s' where pre: "take (length (trace s)) (trace s') = trace s"
      and quiet: "fired (drop (length (trace s)) (trace s')) = []"
      and route: "(\<exists>e. handleRequest inst s = handleError inst e s')
              \<or> (\<exists>res. handleRequest inst s = Returns (handleRejection inst res s'))
              \<or> (\<exists>res. handleRequest inst s = Returns (handleAccept inst res s'))"
    by blast
  from pre have split: "trace s' = trace s @ drop (length (trace s)) (trace s')"
    by (metis append_take_drop_id)
  define pre_evs where "pre_evs = drop (length (trace s)) (trace s')"
  have s': "trace s' = trace s @ pre_evs" and q: "fired pre_evs = []"
    using split quiet by (simp_all add: pre_evs_def)
  from route have "\<exists>k post. trace (final (handleRequest inst s)) = trace s' @ Enter k # post
                        \<and> fired post = []"
  proof (elim disjE exE)
    fix e assume "handleRequest inst s = handleError inst e s'"
    then show ?thesis
      using trace_handleError [of inst e s'] by (auto split: option.splits)
  next
    fix res assume "handleRequest inst s = Returns (handleRejection inst res s')"
    then show ?thesis
      using trace_handleRejection [of inst res s'] by (auto split: option.splits)
  next
    fix res assume "handleRequest inst s = Returns (handleAccept inst res s')"
    then show ?thesis
      using trace_handleAccept [of inst res s'] by (auto split: option.splits)
  qed
  then obtain k post
    where fin: "trace (final (handleRequest inst s)) = trace s' @ Enter k # post"
      and qp: "fired post = []" by blast
  have a: "take (length (trace s)) (trace (final (hf h s))) = trace s"
    using fin s' run by simp
  have b: "fired (events_since s (final (hf h s))) = [k]"
    using fin s' run q qp by (simp add: events_since_def fired_append)
  have c: "fired (events_since s s') = []"
    using quiet by (simp add: events_since_def)
  from a b c pre route run show ?thesis by auto
qed

theorem exactly_one_outcome_witness:
  "Default (Some 0) [testInstance\<lparr>load := 10\<rparr>] = Inr (closure (Some 0))
   \<and> deref [testInstance\<lparr>load := 10\<rparr>] (Some 0) = Some (testInstance\<lparr>load := 10\<rparr>)
   \<and> load (testInstance\<lparr>load := 10\<rparr>) \<noteq> 0
   \<and> (\<exists>k. fired (events_since (s0\<lparr>gc := ctx0\<lparr>env := 95\<rparr>\<rparr>)
               (final (closure (Some 0) [testInstance\<lparr>load := 10\<rparr>]
                  (s0\<lparr>gc := ctx0\<lparr>env := 95\<rparr>\<rparr>)))) = [k])
   \<and> fired (events_since (s0\<lparr>gc := ctx0\<lparr>env := 95\<rparr>\<rparr>)
          (final (closure (Some 0) [testInstance\<lparr>load := 10\<rparr>]
             (s0\<lparr>gc := ctx0\<lparr>env := 95\<rparr>\<rparr>)))) = [RejectHandling]"
  using exactly_one_outcome [of "Some 0" "[testInstance\<lparr>load := 10\<rparr>]" "closure (Some 0)"
      "testInstance\<lparr>load := 10\<rparr>" "s0\<lparr>gc := ctx0\<lparr>env := 95\<rparr>\<rparr>"]
  by (simp add: fixture_defs model_defs Let_def Sprintf_v_nonempty)

subsection \<open>C3: a malformed configuration never reaches a request\<close>

text \<open>
  Claim C3. For an instance made by \<open>NewLimiterMiddleware\<close> from a configuration (the store
  may have grown since), \<open>Default()\<close> and \<open>WithLoad(n)\<close> panic at installation exactly
  when the configuration has no limiter, or has neither of \<open>TenantKey\<close> and
  \<open>TenantKeyFunc\<close>, or has both; otherwise they return a handler. A string field is given
  when it is not empty and a function or interface field when it is not nil. A handler
  that was returned never panics with a configuration or nil-dereference error: its only
  panic is the wrapped per-request error of \<open>handleError\<close>.
\<close>

theorem installation_fails_iff_misconfigured:
  assumes "NewLimiterMiddleware cfg h0 = (p, h1)" and "deref h p = deref h1 p"
  shows "((\<exists>err. Default p h = Inl err) \<longleftrightarrow>
            (Limiter cfg = None
             \<or> (TenantKey cfg = [] \<and> TenantKeyFunc cfg = None)
             \<or> (TenantKey cfg \<noteq> [] \<and> TenantKeyFunc cfg \<noteq> None)))
       \<and> ((\<exists>err. fst (WithLoad p n h) = Inl err) \<longleftrightarrow>
            (Limiter cfg = None
             \<or> (TenantKey cfg = [] \<and> TenantKeyFunc cfg = None)
             \<or> (TenantKey cfg \<noteq> [] \<and> TenantKeyFunc cfg \<noteq> None)))
       \<and> ((\<exists>hf. Default p h = Inr hf) \<longleftrightarrow> (\<forall>err. Default p h \<noteq> Inl err))
       \<and> ((\<exists>hf. fst (WithLoad p n h) = Inr hf) \<longleftrightarrow>
            (\<forall>err. fst (WithLoad p n h) \<noteq> Inl err))
       \<and> (\<forall>hf s e s'. Default p h = Inr hf \<and> hf h s = Panics e s' \<longrightarrow>
              (\<exists>e0. e = fmt_Errorf_w ''error submitting load request: '' e0))
       \<and> (\<forall>hf h' s e s'. WithLoad p n h = (Inr hf, h') \<and> hf h' s = Panics e s' \<longrightarrow>
              (\<exists>e0. e = fmt_Errorf_w ''error submitting load request: '' e0))"
proof -
  define inst where
    "inst = \<lparr>limiter = Limiter cfg, load = DefaultRouteLoad cfg, tenantKey = TenantKey cfg,
             tenantKeyFunc = TenantKeyFunc cfg, acceptHandler = AcceptHandler cfg,
             abortHandler = AbortHandler cfg, errorHandler = ErrorHandler cfg\<rparr>"
  from assms(1) have "deref h1 p = Some inst"
    by (simp add: NewLimiterMiddleware_eq inst_def deref_def)
  with assms(2) have d: "deref h p = Some inst" by simp
  have f: "limiter inst = Limiter cfg" "tenantKey inst = TenantKey cfg"
    "tenantKeyFunc inst = TenantKeyFunc cfg"
    by (simp_all add: inst_def)
  let ?bad = "Limiter cfg = None
             \<or> (TenantKey cfg = [] \<and> TenantKeyFunc cfg = None)
             \<or> (TenantKey cfg \<noteq> [] \<and> TenantKeyFunc cfg \<noteq> None)"
  let ?h2 = "h @ [inst\<lparr>load := n\<rparr>]"
  have v1: "validateConfig h p = None \<longleftrightarrow> \<not> ?bad"
    using d f by (auto simp: validateConfig_None_iff)
  have v2: "validateConfig ?h2 (Some (length h)) = None \<longleftrightarrow> \<not> ?bad"
    using f by (auto simp: validateConfig_None_iff deref_new)
  have w: "WithLoad p n h = (Default (Some (length h)) ?h2, ?h2)"
    by (rule WithLoad_eq [OF d])
  have c1: "(\<exists>err. Default p h = Inl err) \<longleftrightarrow> ?bad"
    using v1 by (auto simp: Default_Inl_iff)
  have c2: "(\<exists>err. fst (WithLoad p n h) = Inl err) \<longleftrightarrow> ?bad"
    using v2 by (auto simp: w Default_Inl_iff)
  have c3: "(\<exists>hf. Default p h = Inr hf) \<longleftrightarrow> (\<forall>err. Default p h \<noteq> Inl err)"
    by (cases "Default p h") auto
  have c4: "(\<exists>hf. fst (WithLoad p n h) = Inr hf) \<longleftrightarrow>
      (\<forall>err. fst (WithLoad p n h) \<noteq> Inl err)"
    by (cases "fst (WithLoad p n h)") auto
  have c5: "\<exists>e0. e = fmt_Errorf_w ''error submitting load request: '' e0"
    if "Default p h = Inr hf \<and> hf h s = Panics e s'" for hf s e s'
  proof -
    from that have "validateConfig h p = None" and run: "closure p h s = Panics e s'"
      by (auto simp: Default_Inr_iff)
    with v1 f have "limiter inst \<noteq> None" by auto
    from closure_Panics [OF d this run] show ?thesis .
  qed
  have c6: "\<exists>e0. e = fmt_Errorf_w ''error submitting load request: '' e0"
    if "WithLoad p n h = (Inr hf, h') \<and> hf h' s = Panics e s'" for hf h' s e s'
  proof -
    from that w have "Default (Some (length h)) ?h2 = Inr hf" "h' = ?h2" by auto
    with that have v: "validateConfig ?h2 (Some (length h)) = None"
      and run: "closure (Some (length h)) ?h2 s = Panics e s'"
      by (auto simp: Default_Inr_iff)
    from v v2 f have "limiter (inst\<lparr>load := n\<rparr>) \<noteq> None" by auto
    from closure_Panics [OF deref_new this run] show ?thesis .
  qed
  from c1 c2 c3 c4 c5 c6 show ?thesis by blast
qed

theorem installation_fails_iff_misconfigured_witness:
  "NewLimiterMiddleware (testConfig\<lparr>Limiter := None\<rparr>) [] =
     (Some 0, [testInstance\<lparr>limiter := None\<rparr>])
   \<and> (\<exists>err. Default (Some 0) [testInstance\<lparr>limiter := None\<rparr>] = Inl err)
   \<and> (\<exists>err. fst (WithLoad (Some 0) 5 [testInstance\<lparr>limiter := None\<rparr>]) = Inl err)
   \<and> NewLimiterMiddleware testConfig [] = (Some 0, [testInstance])
   \<and> (\<exists>hf. Default (Some 0) [testInstance] = Inr hf)
   \<and> (\<exists>hf. fst (WithLoad (Some 0) 5 [testInstance]) = Inr hf)"
  using installation_fails_iff_misconfigured [of "testConfig\<lparr>Limiter := None\<rparr>" "[]" "Some 0"
        "[testInstance\<lparr>limiter := None\<rparr>]" "[testInstance\<lparr>limiter := None\<rparr>]" 5]
    installation_fails_iff_misconfigured [of testConfig "[]" "Some 0" "[testInstance]"
        "[testInstance]" 5]
  by (simp add: NewLimiterMiddleware_def new_def testConfig_def testInstance_def)

subsection \<open>C4: a zero load opts out\<close>

text \<open>
  Claim C4. With load 0 the request's whole run is the one call \<open>c.Next()\<close>: the trace
  gains \<open>CallNext\<close> and nothing else (no \<open>CallSubmit\<close>, no \<open>CallTenantKeyFunc\<close>) and the
  context is untouched. That holds for the closure body, for a handler installed by
  \<open>Default()\<close> on an instance whose \<open>DefaultRouteLoad\<close> is 0, and for a handler installed by
  \<open>WithLoad(0)\<close>.
\<close>

theorem zero_load_skips_admission:
  "(load inst = 0 \<longrightarrow> handleRequest inst s = Returns (s\<lparr>trace := trace s @ [CallNext]\<rparr>))
 \<and> (NewLimiterMiddleware cfg h0 = (p, h) \<and> DefaultRouteLoad cfg = 0 \<and> Default p h = Inr hf
      \<longrightarrow> hf h s = Returns (s\<lparr>trace := trace s @ [CallNext]\<rparr>))
 \<and> (WithLoad q 0 h1 = (Inr hf', h2)
      \<longrightarrow> hf' h2 s = Returns (s\<lparr>trace := trace s @ [CallNext]\<rparr>))"
proof -
  have zero: "handleRequest i s = Returns (s\<lparr>trace := trace s @ [CallNext]\<rparr>)"
    if "load i = 0" for i :: "'a loadLimiterMiddleware"
    using that by (simp add: handleRequest_def c_Next_def log_def)
  have a: "hf h s = Returns (s\<lparr>trace := trace s @ [CallNext]\<rparr>)"
    if "NewLimiterMiddleware cfg h0 = (p, h) \<and> DefaultRouteLoad cfg = 0 \<and> Default p h = Inr hf"
    using that by (auto simp: NewLimiterMiddleware_eq Default_Inr_iff closure_def deref_def zero)
  have b: "hf' h2 s = Returns (s\<lparr>trace := trace s @ [CallNext]\<rparr>)"
    if w: "WithLoad q 0 h1 = (Inr hf', h2)"
  proof (cases "deref h1 q")
    case None
    with w show ?thesis by (simp add: WithLoad_nil)
  next
    case (Some i)
    from w WithLoad_eq [OF Some, of 0]
    have "Default (Some (length h1)) (h1 @ [i\<lparr>load := 0\<rparr>]) = Inr hf'"
      "h2 = h1 @ [i\<lparr>load := 0\<rparr>]" by auto
    then show ?thesis
      by (auto simp: Default_Inr_iff closure_def deref_new zero)
  qed
  from zero a b show ?thesis by blast
qed

theorem zero_load_skips_admission_witness:
  "load (testInstance\<lparr>load := 0\<rparr>) = 0
   \<and> handleRequest (testInstance\<lparr>load := 0\<rparr>) s0 = Returns \<lparr>trace = [CallNext], gc = ctx0\<rparr>
   \<and> NewLimiterMiddleware (testConfig\<lparr>DefaultRouteLoad := 0\<rparr>) [] =
       (Some 0, [testInstance\<lparr>load := 0\<rparr>])
   \<and> Default (Some 0) [testInstance\<lparr>load := 0\<rparr>] = Inr (closure (Some 0))
   \<and> closure (Some 0) [testInstance\<lparr>load := 0\<rparr>] s0 =
       Returns \<lparr>trace = [CallNext], gc = ctx0\<rparr>
   \<and> WithLoad (Some 0) 0 [testInstance] =
       (Inr (closure (Some 1)), [testInstance, testInstance\<lparr>load := 0\<rparr>])
   \<and> closure (Some 1) [testInstance, testInstance\<lparr>load := 0\<rparr>] s0 =
       Returns \<lparr>trace = [CallNext], gc = ctx0\<rparr>"
  using zero_load_skips_admission [where inst = "testInstance\<lparr>load := 0\<rparr>" and s = s0
        and cfg = "testConfig\<lparr>DefaultRouteLoad := 0\<rparr>" and ?h0.0 = "[]" and p = "Some 0"
        and h = "[testInstance\<lparr>load := 0\<rparr>]" and hf = "closure (Some 0)"
        and q = "Some 0" and ?h1.0 = "[testInstance]" and hf' = "closure (Some 1)"
        and ?h2.0 = "[testInstance, testInstance\<lparr>load := 0\<rparr>]"]
  by (simp add: NewLimiterMiddleware_def new_def testConfig_def testInstance_def s0_def
      Default_def routeLoadLimiter_def validateConfig_def deref_def WithLoad_def clone_def
      assign_load_def)

subsection \<open>C5: failures go to the error path\<close>

text \<open>
  Claim C5. For a request with a positive load: when \<open>tenantKeyFunc\<close> returns an error the
  run is \<open>handleError\<close> on that error, and its events are the call of the key function,
  the entry into the error handling and at most the call of the error handler, so
  \<open>Submit\<close> is not called and the rejection handling is not entered; when \<open>Submit\<close> returns
  an error the run is \<open>handleError\<close> on that error and the only outcome method entered is
  the error handling. With no \<open>tenantKeyFunc\<close>, resolution returns the fixed key and a nil
  error and changes nothing.
\<close>

theorem errors_route_to_error_path:
  assumes "load inst \<noteq> 0"
  shows "(tenantKeyFunc inst = Some f \<and> f (gc s) = ((k, Some e), c') \<longrightarrow>
            handleRequest inst s =
              handleError inst e (s\<lparr>trace := trace s @ [CallTenantKeyFunc], gc := c'\<rparr>)
          \<and> events_since s (final (handleRequest inst s)) =
              CallTenantKeyFunc # Enter ErrorHandling #
                (case errorHandler inst of Some h \<Rightarrow> [CallErrorHandler e] | None \<Rightarrow> []))
       \<and> (effectiveTenantKey inst s = ((k', None), s1) \<and> limiter inst = Some l
            \<and> Submit l k' (load inst) s1 = ((res, Some e'), s2) \<longrightarrow>
            handleRequest inst s = handleError inst e' s2
          \<and> fired (events_since s (final (handleRequest inst s))) = [ErrorHandling])
       \<and> (tenantKeyFunc inst = None \<longrightarrow>
            effectiveTenantKey inst s = ((tenantKey inst, None), s))"
proof (intro conjI impI)
  assume a: "tenantKeyFunc inst = Some f \<and> f (gc s) = ((k, Some e), c')"
  let ?s1 = "s\<lparr>trace := trace s @ [CallTenantKeyFunc], gc := c'\<rparr>"
  from a have tk: "effectiveTenantKey inst s = ((k, Some e), ?s1)"
    by (simp add: effectiveTenantKey_func)
  from handleRequest_resolution_error [OF assms tk]
  show r: "handleRequest inst s = handleError inst e ?s1" .
  show "events_since s (final (handleRequest inst s)) =
          CallTenantKeyFunc # Enter ErrorHandling #
            (case errorHandler inst of Some h \<Rightarrow> [CallErrorHandler e] | None \<Rightarrow> [])"
    using trace_handleError [of inst e ?s1] by (simp add: r events_since_def)
next
  assume b: "effectiveTenantKey inst s = ((k', None), s1) \<and> limiter inst = Some l
               \<and> Submit l k' (load inst) s1 = ((res, Some e'), s2)"
  then have tk: "effectiveTenantKey inst s = ((k', None), s1)"
    and l: "limiter inst = Some l"
    and sb: "Submit l k' (load inst) s1 = ((res, Some e'), s2)" by simp_all
  from handleRequest_submission_error [OF assms tk l sb]
  show r: "handleRequest inst s = handleError inst e' s2" .
  have t1: "trace s1 =
      trace s @ (case tenantKeyFunc inst of Some f \<Rightarrow> [CallTenantKeyFunc] | None \<Rightarrow> [])"
    using trace_effectiveTenantKey [of inst s] tk by simp
  have t2: "trace s2 = trace s1 @ [CallSubmit k' (load inst)]"
    using trace_Submit [of l k' "load inst" s1] sb by simp
  show "fired (events_since s (final (handleRequest inst s))) = [ErrorHandling]"
    using trace_handleError [of inst e' s2] t1 t2
    by (simp add: r events_since_def fired_append split: option.splits)
next
  assume "tenantKeyFunc inst = None"
  then show "effectiveTenantKey inst s = ((tenantKey inst, None), s)"
    by (simp add: effectiveTenantKey_def)
qed

theorem errors_route_to_error_path_witness:
  "load (testInstance\<lparr>tenantKey := [], tenantKeyFunc := Some failingKeyFunc\<rparr>) \<noteq> 0
   \<and> failingKeyFunc (gc s0) = (([], Some (ErrorString ''no tenant'')), ctx0)
   \<and> handleRequest (testInstance\<lparr>tenantKey := [], tenantKeyFunc := Some failingKeyFunc\<rparr>) s0 =
       Panics (WrapError ''error submitting load request: no tenant'' (ErrorString ''no tenant''))
         \<lparr>trace = [CallTenantKeyFunc, Enter ErrorHandling], gc = ctx0\<rparr>
   \<and> events_since s0
        (final (handleRequest
           (testInstance\<lparr>tenantKey := [], tenantKeyFunc := Some failingKeyFunc\<rparr>) s0)) =
       [CallTenantKeyFunc, Enter ErrorHandling]
   \<and> Submit brokenLimiter ''A'' 1 s0 =
       ((rejected, Some (ErrorString ''synchronization failed'')),
        \<lparr>trace = [CallSubmit ''A'' 1], gc = ctx0\<rparr>)
   \<and> fired (events_since s0
        (final (handleRequest (testInstance\<lparr>limiter := Some brokenLimiter\<rparr>) s0))) =
       [ErrorHandling]
   \<and> effectiveTenantKey testInstance s0 = ((''A'', None), s0)"
  using errors_route_to_error_path
      [where inst = "testInstance\<lparr>tenantKey := [], tenantKeyFunc := Some failingKeyFunc\<rparr>"
        and s = s0 and f = failingKeyFunc and k = "[]" and e = "ErrorString ''no tenant''"
        and c' = ctx0]
    errors_route_to_error_path
      [where inst = "testInstance\<lparr>limiter := Some brokenLimiter\<rparr>" and s = s0
        and k' = "''A''" and ?s1.0 = s0 and l = brokenLimiter and res = rejected
        and e' = "ErrorString ''synchronization failed''"
        and ?s2.0 = "\<lparr>trace = [CallSubmit ''A'' 1], gc = ctx0\<rparr>"]
  by (simp add: fixture_defs effectiveTenantKey_def Submit_def handleError_def log_def
      fmt_Errorf_w_def events_since_def)

subsection \<open>C6: the default rejection\<close>

text \<open>
  Claim C6, as stated, says that after a default rejection the response has the header
  \<open>X-Retry-In\<close> if and only if \<open>RetryInAvailable\<close> is true. The code only ever adds the
  header: it never removes one. A context that reaches the rejection with \<open>X-Retry-In\<close>
  already set (by an earlier handler of the chain, or by the tenant key function) keeps it
  when \<open>RetryInAvailable\<close> is false. Below, an installed handler with no abort handler
  rejects with \<open>RetryInAvailable = false\<close> and the response still carries
  \<open>X-Retry-In: 999\<close>.
\<close>

theorem default_rejection_keeps_preset_header_counterexample:
  "Default (Some 0) [testInstance\<lparr>limiter := Some fullLimiter\<rparr>] = Inr (closure (Some 0))
   \<and> abortHandler (testInstance\<lparr>limiter := Some fullLimiter\<rparr>) = None
   \<and> Submit fullLimiter ''A'' 1
        (s0\<lparr>gc := ctx0\<lparr>respHeader := [''X-Retry-In'' \<mapsto> [''999'']]\<rparr>\<rparr>) =
       ((rejectedNoRetry, None),
        \<lparr>trace = [CallSubmit ''A'' 1],
         gc = ctx0\<lparr>respHeader := [''X-Retry-In'' \<mapsto> [''999'']]\<rparr>\<rparr>)
   \<and> \<not> Accepted rejectedNoRetry
   \<and> \<not> RetryInAvailable rejectedNoRetry
   \<and> closure (Some 0) [testInstance\<lparr>limiter := Some fullLimiter\<rparr>]
        (s0\<lparr>gc := ctx0\<lparr>respHeader := [''X-Retry-In'' \<mapsto> [''999'']]\<rparr>\<rparr>) =
       Returns
         \<lparr>trace = [CallSubmit ''A'' 1, Enter RejectHandling, CallAbortWithStatus 429],
          gc = \<lparr>respHeader = [''X-Retry-In'' \<mapsto> [''999'']], respStatus = 429,
                aborted = True, env = 0\<rparr>\<rparr>
   \<and> \<not> (respHeader
           (gc (final
             (closure (Some 0) [testInstance\<lparr>limiter := Some fullLimiter\<rparr>]
               (s0\<lparr>gc := ctx0\<lparr>respHeader := [''X-Retry-In'' \<mapsto> [''999'']]\<rparr>\<rparr>))))
           ''X-Retry-In'' \<noteq> None
         \<longleftrightarrow> RetryInAvailable rejectedNoRetry)"
  by (simp add: fixture_defs model_defs Let_def)

text \<open>
  Claim C6, amended. When \<open>Submit\<close> returns a nil error and \<open>Accepted = false\<close> and no abort
  handler is configured, the request returns with status 429 and the chain aborted. The
  middleware sets the header \<open>X-Retry-In\<close> exactly when \<open>RetryInAvailable\<close> is true, to the
  decimal rendering of \<open>RetryIn\<close> in whole milliseconds (the nanoseconds divided by
  \<open>10\<^sup>6\<close>, truncated): read back with \<open>Atoi\<close>, the header gives that number. When
  \<open>RetryInAvailable\<close> is false it makes no \<open>Header\<close> call and leaves the header map as it
  was; so a response whose context had no \<open>X-Retry-In\<close> when the rejection began carries
  the header if and only if \<open>RetryInAvailable\<close> is true.
\<close>

theorem default_rejection_response:
  assumes "load inst \<noteq> 0"
    and "effectiveTenantKey inst s = ((k, None), s1)"
    and "limiter inst = Some l"
    and "Submit l k (load inst) s1 = ((res, None), s2)"
    and "\<not> Accepted res"
    and "abortHandler inst = None"
  shows "\<exists>s'. handleRequest inst s = Returns s'
           \<and> respStatus (gc s') = 429
           \<and> aborted (gc s')
           \<and> respHeader (gc s') =
               (if RetryInAvailable res
                then (respHeader (gc s2))
                       (''X-Retry-In'' \<mapsto> [Sprintf_v (Milliseconds (RetryIn res))])
                else respHeader (gc s2))
           \<and> sint (Milliseconds (RetryIn res)) = sint (RetryIn res) sdiv 1000000
           \<and> Atoi (Sprintf_v (Milliseconds (RetryIn res))) =
               Some (sint (RetryIn res) sdiv 1000000)
           \<and> events_since s2 s' =
               Enter RejectHandling #
                 (if RetryInAvailable res
                  then [CallHeader ''X-Retry-In'' (Sprintf_v (Milliseconds (RetryIn res)))]
                  else []) @ [CallAbortWithStatus 429]
           \<and> ((\<exists>key v. CallHeader key v \<in> set (events_since s2 s')) \<longleftrightarrow> RetryInAvailable res)
           \<and> (respHeader (gc s2) ''X-Retry-In'' = None \<longrightarrow>
                (respHeader (gc s') ''X-Retry-In'' \<noteq> None \<longleftrightarrow> RetryInAvailable res))
           \<and> (RetryInAvailable res \<longrightarrow>
                (\<exists>v. respHeader (gc s') ''X-Retry-In'' = Some [v]
                   \<and> Atoi v = Some (sint (RetryIn res) sdiv 1000000)))
           \<and> env (gc s') = env (gc s2)"
proof -
  have r: "handleRequest inst s = Returns (handleRejection inst res s2)"
    using handleRequest_submitted [OF assms(1-4)] assms(5) by simp
  let ?s' = "handleRejection inst res s2"
  let ?v = "Sprintf_v (Milliseconds (RetryIn res))"
  have basic: "respStatus (gc ?s') = 429" "aborted (gc ?s')" "env (gc ?s') = env (gc s2)"
    using assms(6)
    by (simp_all add: handleRejection_def c_Header_def c_AbortWithStatus_def log_def Let_def)
  have hdr: "respHeader (gc ?s') =
               (if RetryInAvailable res
                then (respHeader (gc s2))(''X-Retry-In'' \<mapsto> [?v])
                else respHeader (gc s2))"
    using assms(6)
    by (simp add: handleRejection_def c_Header_def c_AbortWithStatus_def log_def Let_def
        Sprintf_v_nonempty)
  have ev: "events_since s2 ?s' =
               Enter RejectHandling #
                 (if RetryInAvailable res then [CallHeader ''X-Retry-In'' ?v] else [])
                 @ [CallAbortWithStatus 429]"
    using assms(6) trace_handleRejection [of inst res s2]
    by (simp add: events_since_def)
  have call: "(\<exists>key v. CallHeader key v \<in> set (events_since s2 ?s')) \<longleftrightarrow> RetryInAvailable res"
    by (auto simp: ev)
  have parsed: "Atoi ?v = Some (sint (RetryIn res) sdiv 1000000)"
    by (rule Atoi_retry_header)
  have fresh: "respHeader (gc s2) ''X-Retry-In'' = None \<longrightarrow>
                (respHeader (gc ?s') ''X-Retry-In'' \<noteq> None \<longleftrightarrow> RetryInAvailable res)"
    by (simp add: hdr)
  have carried: "RetryInAvailable res \<longrightarrow>
                (\<exists>v. respHeader (gc ?s') ''X-Retry-In'' = Some [v]
                   \<and> Atoi v = Some (sint (RetryIn res) sdiv 1000000))"
    using parsed by (simp add: hdr)
  note ms = sint_Milliseconds [of "RetryIn res"]
  show ?thesis
    by (rule exI [of _ ?s']) (intro conjI; rule r basic hdr ev call parsed fresh carried ms)
qed

theorem default_rejection_response_witness:
  "load (testInstance\<lparr>load := 10\<rparr>) \<noteq> 0
   \<and> effectiveTenantKey (testInstance\<lparr>load := 10\<rparr>) (s0\<lparr>gc := ctx0\<lparr>env := 95\<rparr>\<rparr>) =
       ((''A'', None), s0\<lparr>gc := ctx0\<lparr>env := 95\<rparr>\<rparr>)
   \<and> limiter (testInstance\<lparr>load := 10\<rparr>) = Some stubLimiter
   \<and> Submit stubLimiter ''A'' 10 (s0\<lparr>gc := ctx0\<lparr>env := 95\<rparr>\<rparr>) =
       ((rejected, None), \<lparr>trace = [CallSubmit ''A'' 10], gc = ctx0\<lparr>env := 95\<rparr>\<rparr>)
   \<and> \<not> Accepted rejected
   \<and> abortHandler (testInstance\<lparr>load := 10\<rparr>) = None
   \<and> handleRequest (testInstance\<lparr>load := 10\<rparr>) (s0\<lparr>gc := ctx0\<lparr>env := 95\<rparr>\<rparr>) =
       Returns
         \<lparr>trace = [CallSubmit ''A'' 10, Enter RejectHandling,
                   CallHeader ''X-Retry-In'' ''1500'', CallAbortWithStatus 429],
          gc = \<lparr>respHeader = [''X-Retry-In'' \<mapsto> [''1500'']], respStatus = 429,
                aborted = True, env = 95\<rparr>\<rparr>
   \<and> Atoi ''1500'' = Some 1500
   \<and> sint (RetryIn rejected) sdiv 1000000 = 1500"
  using default_rejection_response [of "testInstance\<lparr>load := 10\<rparr>"
        "s0\<lparr>gc := ctx0\<lparr>env := 95\<rparr>\<rparr>" "''A''" "s0\<lparr>gc := ctx0\<lparr>env := 95\<rparr>\<rparr>" stubLimiter
        rejected "\<lparr>trace = [CallSubmit ''A'' 10], gc = ctx0\<lparr>env := 95\<rparr>\<rparr>"]
  by (simp add: fixture_defs model_defs Let_def Sprintf_v_def Milliseconds_def showNat.simps
      signed_divide_int_def digit_def Atoi_def digitVal_def)

subsection \<open>C7: the error path\<close>

text \<open>
  Claim C7. For a request with a positive load that meets a per-request error (the key
  function returned it, or \<open>Submit\<close> did): with an error handler configured, the handler
  is called with the context and that error, and the request returns; with none, the
  request panics, and the panic value is the \<open>fmt.Errorf\<close> error that wraps the original
  one behind the message \<open>error submitting load request: \<close>.
\<close>

theorem error_handler_or_panic:
  assumes "load inst \<noteq> 0"
    and "(\<exists>k. effectiveTenantKey inst s = ((k, Some e), s1))
       \<or> (\<exists>k s0 l res. effectiveTenantKey inst s = ((k, None), s0) \<and> limiter inst = Some l
              \<and> Submit l k (load inst) s0 = ((res, Some e), s1))"
  shows "handleRequest inst s =
           (case errorHandler inst of
              Some h \<Rightarrow> Returns (s1\<lparr>trace := trace s1 @ [Enter ErrorHandling, CallErrorHandler e],
                                     gc := h (gc s1) e\<rparr>)
            | None \<Rightarrow> Panics (fmt_Errorf_w ''error submitting load request: '' e)
                       (s1\<lparr>trace := trace s1 @ [Enter ErrorHandling]\<rparr>))
       \<and> Unwrap (fmt_Errorf_w ''error submitting load request: '' e) = Some e
       \<and> Error (fmt_Errorf_w ''error submitting load request: '' e) =
           ''error submitting load request: '' @ Error e"
proof -
  from assms(2) have "handleRequest inst s = handleError inst e s1"
  proof (elim disjE exE conjE)
    fix k assume "effectiveTenantKey inst s = ((k, Some e), s1)"
    from handleRequest_resolution_error [OF assms(1) this] show ?thesis .
  next
    fix k s0 l res
    assume "effectiveTenantKey inst s = ((k, None), s0)" "limiter inst = Some l"
      "Submit l k (load inst) s0 = ((res, Some e), s1)"
    from handleRequest_submission_error [OF assms(1) this] show ?thesis .
  qed
  then show ?thesis
    by (simp add: handleError_eq fmt_Errorf_w_def split: option.splits)
qed

theorem error_handler_or_panic_witness:
  "load (testInstance\<lparr>tenantKey := [], tenantKeyFunc := Some failingKeyFunc,
                       errorHandler := Some testErrorHandler\<rparr>) \<noteq> 0
   \<and> effectiveTenantKey
        (testInstance\<lparr>tenantKey := [], tenantKeyFunc := Some failingKeyFunc,
                       errorHandler := Some testErrorHandler\<rparr>) s0 =
       (([], Some (ErrorString ''no tenant'')), \<lparr>trace = [CallTenantKeyFunc], gc = ctx0\<rparr>)
   \<and> handleRequest
        (testInstance\<lparr>tenantKey := [], tenantKeyFunc := Some failingKeyFunc,
                       errorHandler := Some testErrorHandler\<rparr>) s0 =
       Returns
         \<lparr>trace = [CallTenantKeyFunc, Enter ErrorHandling,
                   CallErrorHandler (ErrorString ''no tenant'')],
          gc = ctx0\<lparr>respStatus := 500, aborted := True\<rparr>\<rparr>
   \<and> Submit brokenLimiter ''A'' 1 s0 =
       ((rejected, Some (ErrorString ''synchronization failed'')),
        \<lparr>trace = [CallSubmit ''A'' 1], gc = ctx0\<rparr>)
   \<and> handleRequest (testInstance\<lparr>limiter := Some brokenLimiter\<rparr>) s0 =
       Panics (WrapError ''error submitting load request: synchronization failed''
                 (ErrorString ''synchronization failed''))
         \<lparr>trace = [CallSubmit ''A'' 1, Enter ErrorHandling], gc = ctx0\<rparr>"
  using error_handler_or_panic
      [of "testInstance\<lparr>tenantKey := [], tenantKeyFunc := Some failingKeyFunc,
                       errorHandler := Some testErrorHandler\<rparr>" s0
        "ErrorString ''no tenant''" "\<lparr>trace = [CallTenantKeyFunc], gc = ctx0\<rparr>"]
    error_handler_or_panic
      [of "testInstance\<lparr>limiter := Some brokenLimiter\<rparr>" s0
        "ErrorString ''synchronization failed''" "\<lparr>trace = [CallSubmit ''A'' 1], gc = ctx0\<rparr>"]
  by (simp add: fixture_defs effectiveTenantKey_def Submit_def log_def fmt_Errorf_w_def)

subsection \<open>C8: specialization copies and leaves the parent alone\<close>

text \<open>
  Claim C8. \<open>WithLoad(n)\<close> on an existing instance appends one cell to the store and
  changes no other: every instance that was there, the parent among them, reads as
  before. The new cell, at an address that was free, has load \<open>n\<close> and the parent's
  limiter, tenant key, tenant key function and three handlers; the handler returned is
  the closure over that address. Two specializations of one parent are independent: after
  both, the first handler still serves with the first load, the second with the second,
  and the parent is unchanged.
\<close>

theorem WithLoad_copies_and_preserves:
  assumes "deref h p = Some inst"
  shows "snd (WithLoad p n h) = h @ [inst\<lparr>load := n\<rparr>]
       \<and> (\<forall>q i. deref h q = Some i \<longrightarrow> deref (snd (WithLoad p n h)) q = Some i)
       \<and> deref h (Some (length h)) = None
       \<and> (\<exists>c. deref (snd (WithLoad p n h)) (Some (length h)) = Some c
              \<and> load c = n
              \<and> limiter c = limiter inst
              \<and> tenantKey c = tenantKey inst
              \<and> tenantKeyFunc c = tenantKeyFunc inst
              \<and> acceptHandler c = acceptHandler inst
              \<and> abortHandler c = abortHandler inst
              \<and> errorHandler c = errorHandler inst)
       \<and> (\<forall>hf. fst (WithLoad p n h) = Inr hf \<longrightarrow> hf = closure (Some (length h)))
       \<and> (\<forall>hf1 h1 hf2 h2 m s.
              WithLoad p n h = (Inr hf1, h1) \<and> WithLoad p m h1 = (Inr hf2, h2) \<longrightarrow>
                hf1 h2 s = handleRequest (inst\<lparr>load := n\<rparr>) s
              \<and> hf2 h2 s = handleRequest (inst\<lparr>load := m\<rparr>) s
              \<and> deref h2 p = Some inst)"
proof -
  let ?h1 = "h @ [inst\<lparr>load := n\<rparr>]"
  have w: "WithLoad p n h = (Default (Some (length h)) ?h1, ?h1)"
    by (rule WithLoad_eq [OF assms])
  have a: "snd (WithLoad p n h) = ?h1" by (simp add: w)
  have b: "\<forall>q i. deref h q = Some i \<longrightarrow> deref (snd (WithLoad p n h)) q = Some i"
    by (simp add: a deref_append)
  have c: "deref h (Some (length h)) = None" by (simp add: deref_def)
  have d: "\<exists>c. deref (snd (WithLoad p n h)) (Some (length h)) = Some c
              \<and> load c = n
              \<and> limiter c = limiter inst
              \<and> tenantKey c = tenantKey inst
              \<and> tenantKeyFunc c = tenantKeyFunc inst
              \<and> acceptHandler c = acceptHandler inst
              \<and> abortHandler c = abortHandler inst
              \<and> errorHandler c = errorHandler inst"
    by (simp add: a deref_new)
  have e: "\<forall>hf. fst (WithLoad p n h) = Inr hf \<longrightarrow> hf = closure (Some (length h))"
    by (auto simp: w Default_Inr_iff)
  have f: "hf1 h2 s = handleRequest (inst\<lparr>load := n\<rparr>) s
         \<and> hf2 h2 s = handleRequest (inst\<lparr>load := m\<rparr>) s
         \<and> deref h2 p = Some inst"
    if two: "WithLoad p n h = (Inr hf1, h1) \<and> WithLoad p m h1 = (Inr hf2, h2)"
    for hf1 h1 hf2 h2 m s
  proof -
    from two w have h1: "h1 = ?h1" and hf1: "hf1 = closure (Some (length h))"
      by (auto simp: Default_Inr_iff)
    have p1: "deref h1 p = Some inst"
      using assms by (simp add: h1 deref_append)
    let ?h2 = "h1 @ [inst\<lparr>load := m\<rparr>]"
    have w2: "WithLoad p m h1 = (Default (Some (length h1)) ?h2, ?h2)"
      by (rule WithLoad_eq [OF p1])
    from two w2 have h2: "h2 = ?h2" and hf2: "hf2 = closure (Some (length h1))"
      by (auto simp: Default_Inr_iff)
    have "deref h1 (Some (length h)) = Some (inst\<lparr>load := n\<rparr>)"
      by (simp add: h1 deref_new)
    then have "deref h2 (Some (length h)) = Some (inst\<lparr>load := n\<rparr>)"
      by (simp add: h2 deref_append)
    then have r1: "hf1 h2 s = handleRequest (inst\<lparr>load := n\<rparr>) s"
      by (simp add: hf1 closure_def)
    have "deref h2 (Some (length h1)) = Some (inst\<lparr>load := m\<rparr>)"
      by (simp add: h2 deref_new)
    then have r2: "hf2 h2 s = handleRequest (inst\<lparr>load := m\<rparr>) s"
      by (simp add: hf2 closure_def)
    have "deref h2 p = Some inst"
      using p1 by (simp add: h2 deref_append)
    with r1 r2 show ?thesis by simp
  qed
  from a b c d e f show ?thesis by blast
qed

theorem WithLoad_copies_and_preserves_witness:
  "deref [testInstance] (Some 0) = Some testInstance
   \<and> WithLoad (Some 0) 5 [testInstance] =
       (Inr (closure (Some 1)), [testInstance, testInstance\<lparr>load := 5\<rparr>])
   \<and> WithLoad (Some 0) 7 [testInstance, testInstance\<lparr>load := 5\<rparr>] =
       (Inr (closure (Some 2)),
        [testInstance, testInstance\<lparr>load := 5\<rparr>, testInstance\<lparr>load := 7\<rparr>])
   \<and> closure (Some 1)
        [testInstance, testInstance\<lparr>load := 5\<rparr>, testInstance\<lparr>load := 7\<rparr>] s0 =
       handleRequest (testInstance\<lparr>load := 5\<rparr>) s0
   \<and> closure (Some 2)
        [testInstance, testInstance\<lparr>load := 5\<rparr>, testInstance\<lparr>load := 7\<rparr>] s0 =
       handleRequest (testInstance\<lparr>load := 7\<rparr>) s0
   \<and> deref [testInstance, testInstance\<lparr>load := 5\<rparr>, testInstance\<lparr>load := 7\<rparr>] (Some 0) =
       Some testInstance"
proof -
  let ?h1 = "[testInstance, testInstance\<lparr>load := 5\<rparr>]"
  let ?h2 = "[testInstance, testInstance\<lparr>load := 5\<rparr>, testInstance\<lparr>load := 7\<rparr>]"
  have d: "deref [testInstance] (Some 0) = Some testInstance"
    by (simp add: deref_def)
  have w1: "WithLoad (Some 0) 5 [testInstance] = (Inr (closure (Some 1)), ?h1)"
    by (simp add: testInstance_def deref_def WithLoad_def clone_def new_def assign_load_def
        Default_def routeLoadLimiter_def validateConfig_def)
  have w2: "WithLoad (Some 0) 7 ?h1 = (Inr (closure (Some 2)), ?h2)"
    by (simp add: testInstance_def deref_def WithLoad_def clone_def new_def assign_load_def
        Default_def routeLoadLimiter_def validateConfig_def numeral_2_eq_2)
  from WithLoad_copies_and_preserves [OF d, of 5]
  have "\<forall>hf1 h1 hf2 h2 m s.
          WithLoad (Some 0) 5 [testInstance] = (Inr hf1, h1) \<and>
          WithLoad (Some 0) m h1 = (Inr hf2, h2) \<longrightarrow>
            hf1 h2 s = handleRequest (testInstance\<lparr>load := 5\<rparr>) s
          \<and> hf2 h2 s = handleRequest (testInstance\<lparr>load := m\<rparr>) s
          \<and> deref h2 (Some 0) = Some testInstance"
    by blast
  with w1 w2 have
    "closure (Some 1) ?h2 s0 = handleRequest (testInstance\<lparr>load := 5\<rparr>) s0
     \<and> closure (Some 2) ?h2 s0 = handleRequest (testInstance\<lparr>load := 7\<rparr>) s0
     \<and> deref ?h2 (Some 0) = Some testInstance"
    by blast
  with d w1 w2 show ?thesis by simp
qed

subsection \<open>C9: an empty key from the key function\<close>

text \<open>
  Claim C9. Whatever key \<open>tenantKeyFunc\<close> returns with a nil error, the empty string
  included, resolution succeeds with that key, the next call is \<open>Submit\<close> with that key
  and the instance's load, and the rest of the request is what an instance with that key
  as its fixed \<open>tenantKey\<close> does from the state the key function left. Nothing in the
  request's path looks at the key.
\<close>

theorem empty_key_from_func_is_submitted:
  assumes "load inst \<noteq> 0"
    and "tenantKeyFunc inst = Some f"
    and "f (gc s) = ((k, None), c')"
    and "limiter inst = Some l"
  shows "effectiveTenantKey inst s =
           ((k, None), s\<lparr>trace := trace s @ [CallTenantKeyFunc], gc := c'\<rparr>)
       \<and> handleRequest inst s =
           handleRequest (inst\<lparr>tenantKey := k, tenantKeyFunc := None\<rparr>)
             (s\<lparr>trace := trace s @ [CallTenantKeyFunc], gc := c'\<rparr>)
       \<and> take 2 (events_since s (final (handleRequest inst s))) =
           [CallTenantKeyFunc, CallSubmit k (load inst)]"
proof -
  let ?s1 = "s\<lparr>trace := trace s @ [CallTenantKeyFunc], gc := c'\<rparr>"
  let ?fixed = "inst\<lparr>tenantKey := k, tenantKeyFunc := None\<rparr>"
  have tk: "effectiveTenantKey inst s = ((k, None), ?s1)"
    using assms(2,3) by (rule effectiveTenantKey_func)
  have tk': "effectiveTenantKey ?fixed ?s1 = ((k, None), ?s1)"
    by (simp add: effectiveTenantKey_def)
  have hE: "handleError ?fixed = handleError inst"
    by (simp add: handleError_def fun_eq_iff)
  have hR: "handleRejection ?fixed = handleRejection inst"
    by (simp add: handleRejection_def fun_eq_iff)
  have hA: "handleAccept ?fixed = handleAccept inst"
    by (simp add: handleAccept_def fun_eq_iff)
  have eq: "handleRequest inst s = handleRequest ?fixed ?s1"
    using assms(1,4) tk tk'
    by (simp add: handleRequest_def hE hR hA split: prod.splits option.splits)
  obtain res err s2 where sb: "Submit l k (load inst) ?s1 = ((res, err), s2)"
    by (metis surj_pair)
  have t2: "trace s2 = trace s @ [CallTenantKeyFunc, CallSubmit k (load inst)]"
    using trace_Submit [of l k "load inst" ?s1] sb by simp
  have "\<exists>post. trace (final (handleRequest inst s)) = trace s2 @ post"
  proof (cases err)
    case (Some e)
    then have "handleRequest inst s = handleError inst e s2"
      using handleRequest_submission_error [OF assms(1) tk assms(4)] sb by simp
    then show ?thesis using trace_handleError [of inst e s2] by simp
  next
    case None
    then have "handleRequest inst s =
        Returns (if Accepted res then handleAccept inst res s2 else handleRejection inst res s2)"
      using handleRequest_submitted [OF assms(1) tk assms(4)] sb by simp
    then show ?thesis
      using trace_handleAccept [of inst res s2] trace_handleRejection [of inst res s2]
      by (cases "Accepted res") simp_all
  qed
  then obtain post where "trace (final (handleRequest inst s)) = trace s2 @ post" ..
  then have "take 2 (events_since s (final (handleRequest inst s))) =
           [CallTenantKeyFunc, CallSubmit k (load inst)]"
    by (simp add: events_since_def t2)
  with tk eq show ?thesis by simp
qed

theorem empty_key_from_func_is_submitted_witness:
  "load (testInstance\<lparr>tenantKey := [], tenantKeyFunc := Some emptyKeyFunc\<rparr>) \<noteq> 0
   \<and> tenantKeyFunc (testInstance\<lparr>tenantKey := [], tenantKeyFunc := Some emptyKeyFunc\<rparr>) =
       Some emptyKeyFunc
   \<and> emptyKeyFunc (gc s0) = (([], None), ctx0)
   \<and> limiter (testInstance\<lparr>tenantKey := [], tenantKeyFunc := Some emptyKeyFunc\<rparr>) =
       Some stubLimiter
   \<and> effectiveTenantKey
        (testInstance\<lparr>tenantKey := [], tenantKeyFunc := Some emptyKeyFunc\<rparr>) s0 =
       (([], None), \<lparr>trace = [CallTenantKeyFunc], gc = ctx0\<rparr>)
   \<and> handleRequest (testInstance\<lparr>tenantKey := [], tenantKeyFunc := Some emptyKeyFunc\<rparr>) s0 =
       Returns \<lparr>trace = [CallTenantKeyFunc, CallSubmit [] 1, Enter AcceptHandling, CallNext],
                gc = ctx0\<lparr>env := 1\<rparr>\<rparr>"
  using empty_key_from_func_is_submitted
      [of "testInstance\<lparr>tenantKey := [], tenantKeyFunc := Some emptyKeyFunc\<rparr>"
        emptyKeyFunc s0 "[]" ctx0 stubLimiter]
  by (simp add: fixture_defs model_defs)

subsection \<open>C10: an empty fixed key counts as none\<close>

text \<open>
  Claim C10. Validation reads an empty \<open>tenantKey\<close> as not given. For an instance with a
  limiter and an empty \<open>tenantKey\<close>: with no \<open>tenantKeyFunc\<close>, validation returns the error
  \<open>one of TenantKey or TenantKeyFunc is required\<close> and both \<open>Default()\<close> and \<open>WithLoad(n)\<close>
  panic with it; with a \<open>tenantKeyFunc\<close>, validation passes and both return a handler. So
  no installed handler has an empty fixed key as its tenant source.
\<close>

theorem empty_TenantKey_is_unspecified:
  assumes "deref h p = Some inst" and "limiter inst \<noteq> None" and "tenantKey inst = []"
  shows "(tenantKeyFunc inst = None \<longrightarrow>
            validateConfig h p =
              Some (errors_New ''one of TenantKey or TenantKeyFunc is required'')
          \<and> Default p h = Inl (errors_New ''one of TenantKey or TenantKeyFunc is required'')
          \<and> fst (WithLoad p n h) =
              Inl (errors_New ''one of TenantKey or TenantKeyFunc is required''))
       \<and> (tenantKeyFunc inst \<noteq> None \<longrightarrow>
            validateConfig h p = None
          \<and> Default p h = Inr (closure p)
          \<and> fst (WithLoad p n h) = Inr (closure (Some (length h))))
       \<and> (\<forall>hf. Default p h = Inr hf \<or> fst (WithLoad p n h) = Inr hf \<longrightarrow>
              tenantKeyFunc inst \<noteq> None)"
proof -
  let ?h1 = "h @ [inst\<lparr>load := n\<rparr>]"
  have w: "fst (WithLoad p n h) = Default (Some (length h)) ?h1"
    by (simp add: WithLoad_eq [OF assms(1)])
  have d: "deref ?h1 (Some (length h)) = Some (inst\<lparr>load := n\<rparr>)"
    by (rule deref_new)
  show ?thesis
    using assms d
    by (auto simp: w Default_def routeLoadLimiter_def validateConfig_def)
qed

theorem empty_TenantKey_is_unspecified_witness:
  "deref [testInstance\<lparr>tenantKey := []\<rparr>] (Some 0) = Some (testInstance\<lparr>tenantKey := []\<rparr>)
   \<and> limiter (testInstance\<lparr>tenantKey := []\<rparr>) \<noteq> None
   \<and> tenantKey (testInstance\<lparr>tenantKey := []\<rparr>) = []
   \<and> Default (Some 0) [testInstance\<lparr>tenantKey := []\<rparr>] =
       Inl (ErrorString ''one of TenantKey or TenantKeyFunc is required'')
   \<and> Default (Some 0) [testInstance\<lparr>tenantKey := [], tenantKeyFunc := Some emptyKeyFunc\<rparr>] =
       Inr (closure (Some 0))"
  using empty_TenantKey_is_unspecified
      [of "[testInstance\<lparr>tenantKey := []\<rparr>]" "Some 0" "testInstance\<lparr>tenantKey := []\<rparr>" 3]
    empty_TenantKey_is_unspecified
      [of "[testInstance\<lparr>tenantKey := [], tenantKeyFunc := Some emptyKeyFunc\<rparr>]" "Some 0"
        "testInstance\<lparr>tenantKey := [], tenantKeyFunc := Some emptyKeyFunc\<rparr>" 3]
  by (simp add: testInstance_def deref_def errors_New_def)

end
